theory Spec2Isabelle
  imports Complex_Main "HOL-Library.Sublist"
begin

section \<open>JavaScript strings\<close>

text \<open>
  A JavaScript string is a sequence of UTF-16 code units. The screens compare, trim and
  concatenate strings, so a string is modelled as the list of its code units (each a
  natural number below 65536). ASCII text is written with \<open>ascii\<close>; the Japanese
  literals of the source are given by their code units.
\<close>

type_synonym jsstring = "nat list"

definition ascii :: "string \<Rightarrow> jsstring" where
  "ascii s = map of_char s"

text \<open>
  \<open>String.prototype.trim\<close> strips the code points of the ECMAScript productions
  WhiteSpace (TAB, VT, FF, ZWNBSP and the Unicode space separators) and LineTerminator
  (LF, CR, LS, PS) from both ends. All of them lie in the basic plane, so the test
  works on code units.
\<close>

definition isWhiteSpace :: "nat \<Rightarrow> bool" where
  "isWhiteSpace c \<longleftrightarrow>
     c = 0x9 \<or> c = 0xA \<or> c = 0xB \<or> c = 0xC \<or> c = 0xD \<or> c = 0x20 \<or> c = 0xA0 \<or>
     c = 0x1680 \<or> (0x2000 \<le> c \<and> c \<le> 0x200A) \<or> c = 0x2028 \<or> c = 0x2029 \<or>
     c = 0x202F \<or> c = 0x205F \<or> c = 0x3000 \<or> c = 0xFEFF"

definition trim :: "jsstring \<Rightarrow> jsstring" where
  "trim s = rev (dropWhile isWhiteSpace (rev (dropWhile isWhiteSpace s)))"

text \<open>A string is blank when it is empty or consists of white space only.\<close>

definition blank :: "jsstring \<Rightarrow> bool" where
  "blank s = list_all isWhiteSpace s"

text \<open>
  The decimal digits of a non-negative integer, as \<open>Number.prototype.toString\<close> and a
  template literal print an integral number below \<open>10^21\<close>.
\<close>

fun decimal :: "nat \<Rightarrow> jsstring" where
  "decimal n = (if n < 10 then [48 + n] else decimal (n div 10) @ [48 + n mod 10])"

declare decimal.simps [simp del]

section \<open>Values read from a response body\<close>

text \<open>
  \<open>response.json()\<close> resolves to the value \<open>JSON.parse\<close> builds: null, a boolean, a
  number (a double; kept as the rational it denotes, or an infinity for a literal
  beyond the double range), a string, an array or an object. An object is the
  association list of its own properties; a lookup takes the first binding of a key.
\<close>

datatype jsnumber = Finite rat | PosInfinity | NegInfinity

datatype json =
    JNull
  | JBool bool
  | JNum jsnumber
  | JStr jsstring
  | JArr "json list"
  | JObj "(jsstring \<times> json) list"

text \<open>
  The result of a property read is \<open>None\<close> for \<open>undefined\<close>. \<open>getProp\<close> reads a
  named property of a value that is neither null nor undefined; it is used with the
  names of the source (\<open>candidates\<close>, \<open>content\<close>, \<open>parts\<close>, \<open>text\<close>, \<open>error\<close>,
  \<open>message\<close>) only, none of which the prototypes of strings, numbers, booleans or
  arrays define. \<open>getIndex0\<close> is the read \<open>v[0]\<close>: the first element of an array, the
  first code unit of a string, the property named \<open>0\<close> of an object.
\<close>

fun getProp :: "jsstring \<Rightarrow> json \<Rightarrow> json option" where
  "getProp k (JObj kvs) = map_of kvs k"
| "getProp k v = None"

fun getIndex0 :: "json \<Rightarrow> json option" where
  "getIndex0 (JArr xs) = (case xs of [] \<Rightarrow> None | x # _ \<Rightarrow> Some x)"
| "getIndex0 (JStr s) = (case s of [] \<Rightarrow> None | c # _ \<Rightarrow> Some (JStr [c]))"
| "getIndex0 (JObj kvs) = map_of kvs (ascii ''0'')"
| "getIndex0 v = None"

text \<open>
  Optional chaining \<open>v?.p\<close>: undefined when \<open>v\<close> is undefined or null, the read
  otherwise.
\<close>

fun optChain :: "(json \<Rightarrow> json option) \<Rightarrow> json option \<Rightarrow> json option" where
  "optChain f None = None"
| "optChain f (Some JNull) = None"
| "optChain f (Some v) = f v"

text \<open>
  Truthiness, as \<open>||\<close> tests it: undefined, null, false, zero and the empty string are
  falsy; every other value is truthy (\<open>JSON.parse\<close> never yields NaN).
\<close>

fun truthy :: "json option \<Rightarrow> bool" where
  "truthy None = False"
| "truthy (Some JNull) = False"
| "truthy (Some (JBool b)) = b"
| "truthy (Some (JNum n)) = (n \<noteq> Finite 0)"
| "truthy (Some (JStr s)) = (s \<noteq> [])"
| "truthy (Some (JArr xs)) = True"
| "truthy (Some (JObj kvs)) = True"

text \<open>A thrown value: an \<open>Error\<close> object with its message, or anything else.\<close>

datatype thrown = Error jsstring | NonError

text \<open>
  What the source leaves to the JavaScript engine: the message of the TypeError raised
  by reading a named property of null, the message of the TypeError raised by calling a
  named method that is not a function, and the conversion \<open>new Error(v)\<close> applies to
  a message \<open>v\<close> that is not a string (it may itself throw).
\<close>

record engine =
  nullReadMessage :: "jsstring \<Rightarrow> jsstring"
  notCallableMessage :: "jsstring \<Rightarrow> jsstring"
  toStringOther :: "json \<Rightarrow> thrown + jsstring"

fun toStringJS :: "engine \<Rightarrow> json \<Rightarrow> thrown + jsstring" where
  "toStringJS eng (JStr s) = Inr s"
| "toStringJS eng v = toStringOther eng v"

section \<open>The text-generation screen (gemini.tsx)\<close>

subsection \<open>Constants\<close>

definition GEMINI_MODEL :: jsstring where
  "GEMINI_MODEL = ascii ''gemini-2.5-flash''"

definition GEMINI_API_URL :: jsstring where
  "GEMINI_API_URL =
     ascii ''https://generativelanguage.googleapis.com/v1beta/models/'' @ GEMINI_MODEL
       @ ascii '':generateContent''"

text \<open>The title of every alert, the katakana word for "error".\<close>

definition errorTitle :: jsstring where
  "errorTitle = [0x30A8, 0x30E9, 0x30FC]"

text \<open>"Please enter a prompt."\<close>

definition promptRequired :: jsstring where
  "promptRequired =
     [0x30D7, 0x30ED, 0x30F3, 0x30D7, 0x30C8, 0x3092, 0x5165, 0x529B, 0x3057, 0x3066,
      0x304F, 0x3060, 0x3055, 0x3044]"

text \<open>"Please enter the Gemini API key."\<close>

definition apiKeyRequired :: jsstring where
  "apiKeyRequired =
     ascii ''Gemini API'' @
     [0x30AD, 0x30FC, 0x3092, 0x5165, 0x529B, 0x3057, 0x3066, 0x304F, 0x3060, 0x3055,
      0x3044]"

text \<open>The fallback text, "The text could not be generated."\<close>

definition fallbackText :: jsstring where
  "fallbackText =
     [0x30C6, 0x30AD, 0x30B9, 0x30C8, 0x3092, 0x751F, 0x6210, 0x3067, 0x304D, 0x307E,
      0x305B, 0x3093, 0x3067, 0x3057, 0x305F]"

text \<open>"An unknown error occurred."\<close>

definition unknownError :: jsstring where
  "unknownError =
     [0x4E0D, 0x660E, 0x306A, 0x30A8, 0x30E9, 0x30FC, 0x304C, 0x767A, 0x751F, 0x3057,
      0x307E, 0x3057, 0x305F]"

text \<open>The prefix "API error: " of the status message.\<close>

definition apiErrorPrefix :: jsstring where
  "apiErrorPrefix = ascii ''API'' @ [0x30A8, 0x30E9, 0x30FC] @ ascii '': ''"

text \<open>"There is no text to read aloud."\<close>

definition noTextToSpeak :: jsstring where
  "noTextToSpeak =
     [0x8AAD, 0x307F, 0x4E0A, 0x3052, 0x308B, 0x30C6, 0x30AD, 0x30B9, 0x30C8, 0x304C,
      0x3042, 0x308A, 0x307E, 0x305B, 0x3093]"

subsection \<open>Requests, responses and effects\<close>

text \<open>
  The request handed to \<open>fetch\<close>. The body is the value given to \<open>JSON.stringify\<close>.
\<close>

record request =
  url :: jsstring
  httpMethod :: jsstring
  headers :: "(jsstring \<times> jsstring) list"
  body :: json

text \<open>
  A response: the \<open>ok\<close> flag, the status code and the outcome of \<open>response.json()\<close>
  (rejected with a thrown value, or resolved to the parsed body).
\<close>

record response =
  ok :: bool
  status :: nat
  jsonResult :: "thrown + json"

datatype fetch_outcome = Rejected thrown | Resolved response

text \<open>
  The options of \<open>Speech.speak\<close> that carry data, in the order language, pitch, rate,
  voice (\<open>None\<close> when the option is undefined).
\<close>

datatype speak_options = SpeakOptions jsstring rat rat "jsstring option"

text \<open>
  What a handler does, in program order: alerts, the network call, console output,
  calls of the speech engine and calls of the state setters.
\<close>

datatype effect =
    Alert jsstring jsstring
  | Fetch request
  | ConsoleError thrown
  | Speak jsstring speak_options
  | SpeechStop
  | SetIsGenerating bool
  | SetGeneratedText json
  | SetIsSpeaking bool

fun isFetch :: "effect \<Rightarrow> bool" where
  "isFetch (Fetch r) = True"
| "isFetch e = False"

fun isAlert :: "effect \<Rightarrow> bool" where
  "isAlert (Alert t m) = True"
| "isAlert e = False"

fun isSpeak :: "effect \<Rightarrow> bool" where
  "isSpeak (Speak t opts) = True"
| "isSpeak e = False"

fun isSetGeneratedText :: "effect \<Rightarrow> bool" where
  "isSetGeneratedText (SetGeneratedText v) = True"
| "isSetGeneratedText e = False"

subsection \<open>Screen state\<close>

text \<open>
  Both speech-enabled screens hold an \<open>isSpeaking\<close> flag; the record of each screen
  extends this common part. \<open>generatedText\<close> holds whatever \<open>setGeneratedText\<close> was
  given: the type annotation says string, the response decides.
\<close>

record speaking_state =
  isSpeaking :: bool

record gemini_state = speaking_state +
  prompt :: jsstring
  apiKey :: jsstring
  generatedText :: json
  isGenerating :: bool

fun applyEffect :: "gemini_state \<Rightarrow> effect \<Rightarrow> gemini_state" where
  "applyEffect s (SetIsGenerating b) = s\<lparr>isGenerating := b\<rparr>"
| "applyEffect s (SetGeneratedText v) = s\<lparr>generatedText := v\<rparr>"
| "applyEffect s (SetIsSpeaking b) = s\<lparr>isSpeaking := b\<rparr>"
| "applyEffect s e = s"

definition runEffects :: "gemini_state \<Rightarrow> effect list \<Rightarrow> gemini_state" where
  "runEffects s es = foldl applyEffect s es"

subsection \<open>handleGenerate\<close>

definition buildRequest :: "gemini_state \<Rightarrow> request" where
  "buildRequest s =
     \<lparr>url = GEMINI_API_URL,
      httpMethod = ascii ''POST'',
      headers = [(ascii ''Content-Type'', ascii ''application/json''),
                 (ascii ''x-goog-api-key'', apiKey s)],
      body = JObj [(ascii ''contents'',
               JArr [JObj [(ascii ''parts'',
                 JArr [JObj [(ascii ''text'', JStr (prompt s))]])]])]\<rparr>"

text \<open>
  The argument of \<open>new Error\<close> on a non-success response:
  \<open>errorData.error?.message || `API error: ${response.status}`\<close>, where \<open>errorData\<close> is
  the parsed body, or \<open>{}\<close> when \<open>response.json()\<close> rejects. Reading \<open>error\<close> of a null
  body throws; \<open>messageField\<close> is the chain of reads on a body that is not null, and
  \<open>statusMessage\<close> the template literal.
\<close>

definition errorDataOf :: "response \<Rightarrow> json" where
  "errorDataOf r = (case jsonResult r of Inl t \<Rightarrow> JObj [] | Inr d \<Rightarrow> d)"

definition messageField :: "json \<Rightarrow> json option" where
  "messageField errorData =
     optChain (getProp (ascii ''message'')) (getProp (ascii ''error'') errorData)"

definition statusMessage :: "response \<Rightarrow> jsstring" where
  "statusMessage r = apiErrorPrefix @ decimal (status r)"

definition errorMessageOf :: "engine \<Rightarrow> response \<Rightarrow> thrown + jsstring" where
  "errorMessageOf eng r =
     (let errorData = errorDataOf r in
      if errorData = JNull then Inl (Error (nullReadMessage eng (ascii ''error'')))
      else
        (case messageField errorData of
           Some v \<Rightarrow> if truthy (Some v) then toStringJS eng v else Inr (statusMessage r)
         | None \<Rightarrow> Inr (statusMessage r)))"

text \<open>
  \<open>data.candidates?.[0]?.content?.parts?.[0]?.text\<close>. \<open>textField\<close> is the chain of
  reads on a body that is not null; the first read has no \<open>?.\<close> and throws on a null
  body.
\<close>

definition textField :: "json \<Rightarrow> json option" where
  "textField data =
     optChain (getProp (ascii ''text''))
       (optChain getIndex0
         (optChain (getProp (ascii ''parts''))
           (optChain (getProp (ascii ''content''))
             (optChain getIndex0
               (getProp (ascii ''candidates'') data)))))"

definition extractText :: "engine \<Rightarrow> json \<Rightarrow> thrown + json option" where
  "extractText eng data =
     (if data = JNull then Inl (Error (nullReadMessage eng (ascii ''candidates'')))
      else Inr (textField data))"

text \<open>\<open>v || fallback\<close>.\<close>

definition orFallback :: "json option \<Rightarrow> json" where
  "orFallback field =
     (case field of
        Some v \<Rightarrow> if truthy (Some v) then v else JStr fallbackText
      | None \<Rightarrow> JStr fallbackText)"

text \<open>
  The body of the \<open>try\<close> block after the \<open>fetch\<close> has settled: \<open>Inl\<close> is the value
  thrown into the \<open>catch\<close> block, \<open>Inr\<close> the text given to \<open>setGeneratedText\<close>.
\<close>

definition tryBlock :: "engine \<Rightarrow> fetch_outcome \<Rightarrow> thrown + json" where
  "tryBlock eng out =
     (case out of
        Rejected t \<Rightarrow> Inl t
      | Resolved r \<Rightarrow>
          if \<not> ok r then
            (case errorMessageOf eng r of Inl t \<Rightarrow> Inl t | Inr m \<Rightarrow> Inl (Error m))
          else
            (case jsonResult r of
               Inl t \<Rightarrow> Inl t
             | Inr data \<Rightarrow>
                 (case extractText eng data of
                    Inl t \<Rightarrow> Inl t
                  | Inr v \<Rightarrow> Inr (orFallback v))))"

text \<open>\<open>error instanceof Error ? error.message : "unknown error"\<close>.\<close>

fun catchMessage :: "thrown \<Rightarrow> jsstring" where
  "catchMessage (Error m) = m"
| "catchMessage NonError = unknownError"

text \<open>
  \<open>handleGenerate\<close>, given the engine and the network (what \<open>fetch\<close> settles to for a
  request): the effects of one invocation, in program order.
\<close>

definition handleGenerate ::
  "engine \<Rightarrow> (request \<Rightarrow> fetch_outcome) \<Rightarrow> gemini_state \<Rightarrow> effect list" where
  "handleGenerate eng fetch s =
     (if trim (prompt s) = [] then [Alert errorTitle promptRequired]
      else if trim (apiKey s) = [] then [Alert errorTitle apiKeyRequired]
      else
        [SetIsGenerating True, SetGeneratedText (JStr []), Fetch (buildRequest s)] @
        (case tryBlock eng (fetch (buildRequest s)) of
           Inr text \<Rightarrow> [SetGeneratedText text]
         | Inl error \<Rightarrow> [Alert errorTitle (catchMessage error), ConsoleError error]) @
        [SetIsGenerating False])"

subsection \<open>handleSpeak\<close>

text \<open>
  \<open>generatedText.trim()\<close> is a method call: on a value that is not a string it throws a
  TypeError out of the handler.
\<close>

definition GeminiScreen_handleSpeak :: "engine \<Rightarrow> gemini_state \<Rightarrow> thrown + effect list" where
  "GeminiScreen_handleSpeak eng s =
     (case generatedText s of
        JStr t \<Rightarrow>
          Inr (if trim t = [] then [Alert errorTitle noTextToSpeak]
               else [Speak t (SpeakOptions (ascii ''ja-JP'') 1 1 None)])
      | v \<Rightarrow> Inl (Error (notCallableMessage eng (ascii ''trim''))))"

subsection \<open>handleStop and handleClear\<close>

definition handleStop :: "effect list" where
  "handleStop = [SpeechStop, SetIsSpeaking False]"

definition handleClear :: "effect list" where
  "handleClear = [SetGeneratedText (JStr []), SpeechStop]"

subsection \<open>The speaking poll\<close>

text \<open>
  \<open>setInterval(checkSpeaking, 500)\<close>: the period in milliseconds, and the callback,
  given the flag \<open>Speech.isSpeakingAsync()\<close> resolved to. The callback is the same on
  both screens, so it is defined on their common part.
\<close>

definition pollIntervalMs :: nat where
  "pollIntervalMs = 500"

definition checkSpeaking ::
  "bool \<Rightarrow> 'a speaking_state_scheme \<Rightarrow> 'a speaking_state_scheme" where
  "checkSpeaking speaking s = s\<lparr>isSpeaking := speaking\<rparr>"

text \<open>
  An interval timer set at time \<open>mounted\<close> (in milliseconds) with period \<open>p\<close> runs its
  callback at \<open>mounted + p\<close>, \<open>mounted + 2 * p\<close>, ...: by time \<open>t\<close> it has run
  \<open>intervalRuns p mounted t\<close> times. \<open>pollAll\<close> runs the callback on the successive
  flags the platform reported.
\<close>

definition intervalRuns :: "nat \<Rightarrow> nat \<Rightarrow> nat \<Rightarrow> nat" where
  "intervalRuns p mounted t = (t - mounted) div p"

definition pollAll ::
  "bool list \<Rightarrow> 'a speaking_state_scheme \<Rightarrow> 'a speaking_state_scheme" where
  "pollAll flags s = foldl (\<lambda>st speaking. checkSpeaking speaking st) s flags"

section \<open>The text-to-speech screen (speech.tsx)\<close>

text \<open>"Please enter some text."\<close>

definition textRequired :: jsstring where
  "textRequired =
     [0x30C6, 0x30AD, 0x30B9, 0x30C8, 0x3092, 0x5165, 0x529B, 0x3057, 0x3066, 0x304F,
      0x3060, 0x3055, 0x3044]"

text \<open>
  The state of the screen. \<open>inputText\<close> is the state variable \<open>text\<close> of the source.
  Pitch and rate are doubles; a double is the rational it denotes.
\<close>

record speech_state = speaking_state +
  inputText :: jsstring
  selectedVoice :: "jsstring option"
  language :: jsstring
  pitch :: rat
  rate :: rat

definition SpeechScreen_handleSpeak :: "speech_state \<Rightarrow> effect list" where
  "SpeechScreen_handleSpeak s =
     (if trim (inputText s) = [] then [Alert errorTitle textRequired]
      else [Speak (inputText s)
              (SpeakOptions (language s) (pitch s) (rate s) (selectedVoice s))])"

text \<open>
  The four buttons of the voice settings. The source computes on doubles: \<open>rnd\<close> is the
  rounding of a real result to a double, applied to the literal \<open>0.1\<close> and to each sum
  or difference (\<open>0.5\<close> and \<open>2.0\<close> are doubles; \<open>Math.max\<close> and \<open>Math.min\<close> are exact).
\<close>

definition pitchDown :: "(rat \<Rightarrow> rat) \<Rightarrow> speech_state \<Rightarrow> speech_state" where
  "pitchDown rnd s = s\<lparr>pitch := max (1 / 2) (rnd (pitch s - rnd (1 / 10)))\<rparr>"

definition pitchUp :: "(rat \<Rightarrow> rat) \<Rightarrow> speech_state \<Rightarrow> speech_state" where
  "pitchUp rnd s = s\<lparr>pitch := min 2 (rnd (pitch s + rnd (1 / 10)))\<rparr>"

definition rateDown :: "(rat \<Rightarrow> rat) \<Rightarrow> speech_state \<Rightarrow> speech_state" where
  "rateDown rnd s = s\<lparr>rate := max (1 / 2) (rnd (rate s - rnd (1 / 10)))\<rparr>"

definition rateUp :: "(rat \<Rightarrow> rat) \<Rightarrow> speech_state \<Rightarrow> speech_state" where
  "rateUp rnd s = s\<lparr>rate := min 2 (rnd (rate s + rnd (1 / 10)))\<rparr>"

datatype button = PitchMinus | PitchPlus | RateMinus | RatePlus

fun press :: "(rat \<Rightarrow> rat) \<Rightarrow> speech_state \<Rightarrow> button \<Rightarrow> speech_state" where
  "press rnd s PitchMinus = pitchDown rnd s"
| "press rnd s PitchPlus = pitchUp rnd s"
| "press rnd s RateMinus = rateDown rnd s"
| "press rnd s RatePlus = rateUp rnd s"

definition pressAll :: "(rat \<Rightarrow> rat) \<Rightarrow> speech_state \<Rightarrow> button list \<Rightarrow> speech_state" where
  "pressAll rnd s bs = foldl (press rnd) s bs"

text \<open>
  What the proofs need of the rounding: it is monotone, it keeps the doubles \<open>0.5\<close> and
  \<open>2\<close>, and the double nearest to \<open>0.1\<close> is not negative. Rounding to nearest of
  IEEE 754 is such a function. \<open>grid52\<close>, rounding to the nearest multiple of
  \<open>2^-52\<close> (the spacing of the doubles between 1 and 2), is another.
\<close>

definition rounding :: "(rat \<Rightarrow> rat) \<Rightarrow> bool" where
  "rounding rnd \<longleftrightarrow>
     (\<forall>x y. x \<le> y \<longrightarrow> rnd x \<le> rnd y) \<and> rnd (1 / 2) = 1 / 2 \<and> rnd 2 = 2 \<and>
     0 \<le> rnd (1 / 10)"

definition grid52 :: "rat \<Rightarrow> rat" where
  "grid52 x = of_int (round (x * 2 ^ 52)) / 2 ^ 52"

definition inRange :: "rat \<Rightarrow> bool" where
  "inRange v \<longleftrightarrow> 1 / 2 \<le> v \<and> v \<le> 2"

text \<open>The state the screen starts in; the default text of the source is Japanese.\<close>

definition initialSpeech :: speech_state where
  "initialSpeech =
     \<lparr>isSpeaking = False,
      inputText =
        [0x3053, 0x3093, 0x306B, 0x3061, 0x306F, 0x3001, 0x3053, 0x308C, 0x306F, 0x97F3,
         0x58F0, 0x5408, 0x6210, 0x306E, 0x30C6, 0x30B9, 0x30C8, 0x3067, 0x3059, 0x3002],
      selectedVoice = None,
      language = ascii ''ja-JP'',
      pitch = 1,
      rate = 1\<rparr>"

section \<open>The recording screen (index.tsx)\<close>

datatype sender = User | Bot

text \<open>
  \<open>VoiceMessage\<close>; \<open>msg_id\<close> and \<open>msg_from\<close> are the fields \<open>id\<close> and \<open>from\<close> of the
  source.
\<close>

record VoiceMessage =
  msg_id :: jsstring
  uri :: jsstring
  msg_from :: sender
  durationSec :: nat

text \<open>
  A pending \<open>setTimeout\<close>: its delay and what its callback closes over (the clip and
  the duration).
\<close>

record timeout =
  delay :: nat
  echoUri :: jsstring
  echoDuration :: nat

record voice_state =
  messages :: "VoiceMessage list"
  recordingTime :: nat
  pendingTimeouts :: "timeout list"

text \<open>
  What the platform contributes to one invocation of \<open>handleRecord\<close>: the recorder's
  \<open>isRecording\<close> flag, how \<open>audioRecorder.stop()\<close> settles (rejected, or resolved with
  \<open>audioRecorder.uri\<close> then being a string or null), whether \<open>prepareToRecordAsync\<close>
  resolves, and the clock \<open>Date.now()\<close>.
\<close>

datatype stop_outcome = StopRejected | StopResolved "jsstring option"

record record_env =
  isRecording :: bool
  stopOutcome :: stop_outcome
  prepareResolves :: bool
  now :: int

datatype recorder_cmd = RecorderStop | PrepareToRecord | Record

definition decimalInt :: "int \<Rightarrow> jsstring" where
  "decimalInt i = (if i < 0 then 0x2D # decimal (nat (- i)) else decimal (nat i))"

text \<open>\<open>recordingTime || 1\<close>.\<close>

definition durationOf :: "nat \<Rightarrow> nat" where
  "durationOf t = (if t = 0 then 1 else t)"

definition handleRecord ::
  "record_env \<Rightarrow> voice_state \<Rightarrow> voice_state \<times> recorder_cmd list" where
  "handleRecord env s =
     (if isRecording env then
        (case stopOutcome env of
           StopRejected \<Rightarrow> (s, [RecorderStop])
         | StopResolved None \<Rightarrow> (s, [RecorderStop])
         | StopResolved (Some u) \<Rightarrow>
             if u = [] then (s, [RecorderStop])
             else
               let duration = durationOf (recordingTime s);
                   userMessage =
                     \<lparr>msg_id = decimalInt (now env), uri = u, msg_from = User,
                      durationSec = duration\<rparr>
               in (s\<lparr>messages := messages s @ [userMessage],
                     pendingTimeouts := pendingTimeouts s @
                       [\<lparr>delay = 1000, echoUri = u, echoDuration = duration\<rparr>]\<rparr>,
                   [RecorderStop]))
      else (s, if prepareResolves env then [PrepareToRecord, Record]
               else [PrepareToRecord]))"

text \<open>The callback of a timeout, run when the clock shows \<open>t\<close>.\<close>

definition botMessageOf :: "int \<Rightarrow> timeout \<Rightarrow> VoiceMessage" where
  "botMessageOf t tm =
     \<lparr>msg_id = decimalInt (t + 1), uri = echoUri tm, msg_from = Bot,
      durationSec = echoDuration tm\<rparr>"

definition timeoutCallback :: "int \<Rightarrow> timeout \<Rightarrow> voice_state \<Rightarrow> voice_state" where
  "timeoutCallback t tm s = s\<lparr>messages := messages s @ [botMessageOf t tm]\<rparr>"

text \<open>
  What happens on the mounted screen: a press of the microphone button, the oldest
  pending timeout firing (all delays are equal, so they fire in the order they were
  set), a tick of the recording timer, and the reset of the recording time when the
  recorder's flag changes.
\<close>

datatype event =
    PressRecord record_env
  | TimeoutFires int
  | RecordingTick
  | RecordingChanged

fun step :: "voice_state \<Rightarrow> event \<Rightarrow> voice_state" where
  "step s (PressRecord env) = fst (handleRecord env s)"
| "step s (TimeoutFires t) =
     (case pendingTimeouts s of
        [] \<Rightarrow> s
      | tm # rest \<Rightarrow> timeoutCallback t tm (s\<lparr>pendingTimeouts := rest\<rparr>))"
| "step s RecordingTick = s\<lparr>recordingTime := recordingTime s + 1\<rparr>"
| "step s RecordingChanged = s\<lparr>recordingTime := 0\<rparr>"

definition run :: "voice_state \<Rightarrow> event list \<Rightarrow> voice_state" where
  "run s evs = foldl step s evs"

subsection \<open>Playback of one message\<close>

text \<open>
  \<open>handlePlay\<close>, given \<open>status.playing\<close>: the calls it makes on the player, in order.
\<close>

datatype player_cmd = Pause | SeekTo rat | Play

definition handlePlay :: "bool \<Rightarrow> player_cmd list" where
  "handlePlay isPlaying = (if isPlaying then [Pause] else [SeekTo 0, Play])"

text \<open>The icon of the button: the pause sign while playing, the play sign otherwise.\<close>

definition playIcon :: "bool \<Rightarrow> jsstring" where
  "playIcon isPlaying = (if isPlaying then [0x23F8] else [0x25B6, 0xFE0E])"

text \<open>
  The player of the platform library, as its documentation describes it: \<open>pause\<close> and
  \<open>play\<close> set the playing flag, \<open>seekTo\<close> sets the position, and the status hook reports
  the flag. \<open>pressPlay\<close> is one press of the button on such a player.
\<close>

record player =
  playing :: bool
  currentTime :: rat

fun playerDo :: "player \<Rightarrow> player_cmd \<Rightarrow> player" where
  "playerDo p Pause = p\<lparr>playing := False\<rparr>"
| "playerDo p (SeekTo t) = p\<lparr>currentTime := t\<rparr>"
| "playerDo p Play = p\<lparr>playing := True\<rparr>"

definition pressPlay :: "player \<Rightarrow> player" where
  "pressPlay p = foldl playerDo p (handlePlay (playing p))"

section \<open>Sample inputs\<close>

text \<open>
  An engine with the messages of Hermes for a read of null and a call of a
  non-function; its conversion of other values to a string is a placeholder.
\<close>

definition hermes :: engine where
  "hermes =
     \<lparr>nullReadMessage = (\<lambda>k. ascii ''Cannot read property '' @ [0x27] @ k @ [0x27] @
                              ascii '' of null''),
      notCallableMessage = (\<lambda>k. ascii ''undefined is not a function''),
      toStringOther = (\<lambda>v. Inr (ascii ''[object Object]''))\<rparr>"

definition respondWith :: "response \<Rightarrow> request \<Rightarrow> fetch_outcome" where
  "respondWith r req = Resolved r"

definition failWith :: "thrown \<Rightarrow> request \<Rightarrow> fetch_outcome" where
  "failWith t req = Rejected t"

text \<open>A state with a prompt and a key, and one with a blank prompt.\<close>

definition readyState :: gemini_state where
  "readyState =
     \<lparr>isSpeaking = False, prompt = ascii ''hello'', apiKey = ascii ''key'',
      generatedText = JStr [], isGenerating = False\<rparr>"

definition blankPromptState :: gemini_state where
  "blankPromptState = readyState\<lparr>prompt := ascii ''  ''\<rparr>"

text \<open>The body \<open>{"candidates": [{"content": {"parts": [{"text": t}]}}]}\<close>.\<close>

definition candidateBody :: "json \<Rightarrow> json" where
  "candidateBody t =
     JObj [(ascii ''candidates'',
       JArr [JObj [(ascii ''content'',
         JObj [(ascii ''parts'', JArr [JObj [(ascii ''text'', t)]])])]])]"

definition okResponse :: "json \<Rightarrow> response" where
  "okResponse d = \<lparr>ok = True, status = 200, jsonResult = Inr d\<rparr>"

definition unparsableOk :: response where
  "unparsableOk =
     \<lparr>ok = True, status = 200, jsonResult = Inl (Error (ascii ''JSON Parse error''))\<rparr>"

text \<open>The body \<open>{"error": {"message": m}}\<close> and non-success responses.\<close>

definition errorBody :: "json \<Rightarrow> json" where
  "errorBody m = JObj [(ascii ''error'', JObj [(ascii ''message'', m)])]"

definition failedResponse :: "nat \<Rightarrow> json \<Rightarrow> response" where
  "failedResponse code d = \<lparr>ok = False, status = code, jsonResult = Inr d\<rparr>"

definition stoppedWith :: "jsstring \<Rightarrow> record_env" where
  "stoppedWith u =
     \<lparr>isRecording = True, stopOutcome = StopResolved (Some u), prepareResolves = True,
      now = 1700000000000\<rparr>"

definition emptyVoice :: voice_state where
  "emptyVoice = \<lparr>messages = [], recordingTime = 3, pendingTimeouts = []\<rparr>"

definition idlePlayer :: player where
  "idlePlayer = \<lparr>playing = False, currentTime = 5\<rparr>"

section \<open>Properties\<close>

lemma dropWhile_all: "list_all P xs \<Longrightarrow> dropWhile P xs = []"
  by (induction xs) auto

lemma trim_empty_iff: "trim s = [] \<longleftrightarrow> blank s"
proof
  assume "trim s = []"
  then have a: "dropWhile isWhiteSpace (rev (dropWhile isWhiteSpace s)) = []"
    by (simp add: trim_def)
  have "dropWhile isWhiteSpace s = []"
  proof (cases "dropWhile isWhiteSpace s")
    case Nil
    then show ?thesis .
  next
    case (Cons c cs)
    then have "\<not> isWhiteSpace c"
      by (metis hd_dropWhile list.sel(1) list.distinct(1))
    from a have "\<forall>x \<in> set (rev (dropWhile isWhiteSpace s)). isWhiteSpace x"
      by simp
    with Cons have "isWhiteSpace c" by simp
    with \<open>\<not> isWhiteSpace c\<close> show ?thesis by simp
  qed
  then show "blank s"
    by (simp add: blank_def list_all_iff)
next
  assume "blank s"
  then show "trim s = []"
    by (simp add: trim_def blank_def dropWhile_all)
qed

text \<open>
  C1. When the prompt or the API key is empty or consists of white space only,
  \<open>handleGenerate\<close> performs no \<open>fetch\<close>: its only effect is one alert with the error
  title, so no state setter runs either.
\<close>

theorem handleGenerate_blank_input_no_fetch:
  assumes "blank (prompt s) \<or> blank (apiKey s)"
  shows "filter isFetch (handleGenerate eng fetch s) = [] \<and>
         handleGenerate eng fetch s =
           [Alert errorTitle (if blank (prompt s) then promptRequired else apiKeyRequired)]"
  using assms by (auto simp: handleGenerate_def trim_empty_iff)

theorem handleGenerate_blank_input_no_fetch_witness:
  "(blank (prompt blankPromptState) \<or> blank (apiKey blankPromptState)) \<and>
   filter isFetch (handleGenerate hermes (respondWith unparsableOk) blankPromptState) = [] \<and>
   handleGenerate hermes (respondWith unparsableOk) blankPromptState =
     [Alert errorTitle promptRequired]"
proof -
  have h: "blank (prompt blankPromptState)"
    by (simp add: blankPromptState_def readyState_def blank_def ascii_def isWhiteSpace_def)
  then have "blank (prompt blankPromptState) \<or> blank (apiKey blankPromptState)" ..
  from handleGenerate_blank_input_no_fetch [OF this, of hermes "respondWith unparsableOk"] h
  show ?thesis by simp
qed

lemma ready_not_blank: "\<not> blank (prompt readyState)" "\<not> blank (apiKey readyState)"
  by (simp_all add: readyState_def blank_def ascii_def isWhiteSpace_def)

lemma handleGenerate_sent:
  assumes "\<not> blank (prompt s)" "\<not> blank (apiKey s)"
  shows "handleGenerate eng fetch s =
     [SetIsGenerating True, SetGeneratedText (JStr []), Fetch (buildRequest s)] @
        (case tryBlock eng (fetch (buildRequest s)) of
           Inr text \<Rightarrow> [SetGeneratedText text]
         | Inl error \<Rightarrow> [Alert errorTitle (catchMessage error), ConsoleError error]) @
        [SetIsGenerating False]"
  using assms by (simp add: handleGenerate_def trim_empty_iff)

text \<open>
  C2, as amended. When the request is sent and the response is ok with a body that parses
  to a JSON value other than null, the displayed text ends as the field
  \<open>candidates[0].content.parts[0].text\<close> when that field is present and truthy (for a
  string: not empty), and as the fallback text when it is absent or falsy; no alert is
  shown.
\<close>

theorem handleGenerate_success_text:
  assumes "\<not> blank (prompt s)" and "\<not> blank (apiKey s)"
    and "fetch (buildRequest s) = Resolved r" and "ok r"
    and "jsonResult r = Inr data" and "data \<noteq> JNull"
  shows "generatedText (runEffects s (handleGenerate eng fetch s)) =
           (case textField data of
              Some v \<Rightarrow> if truthy (Some v) then v else JStr fallbackText
            | None \<Rightarrow> JStr fallbackText) \<and>
         filter isAlert (handleGenerate eng fetch s) = []"
proof -
  have "tryBlock eng (fetch (buildRequest s)) = Inr (orFallback (textField data))"
    using assms by (simp add: tryBlock_def extractText_def)
  then show ?thesis
    using assms(1,2) by (simp add: handleGenerate_sent runEffects_def orFallback_def)
qed

theorem handleGenerate_success_text_witness:
  "\<not> blank (prompt readyState) \<and> \<not> blank (apiKey readyState) \<and>
   respondWith (okResponse (candidateBody (JStr (ascii ''hi'')))) (buildRequest readyState)
     = Resolved (okResponse (candidateBody (JStr (ascii ''hi'')))) \<and>
   ok (okResponse (candidateBody (JStr (ascii ''hi'')))) \<and>
   jsonResult (okResponse (candidateBody (JStr (ascii ''hi''))))
     = Inr (candidateBody (JStr (ascii ''hi''))) \<and>
   candidateBody (JStr (ascii ''hi'')) \<noteq> JNull \<and>
   generatedText (runEffects readyState
     (handleGenerate hermes (respondWith (okResponse (candidateBody (JStr (ascii ''hi'')))))
        readyState)) = JStr (ascii ''hi'')"
proof -
  have a: "respondWith (okResponse (candidateBody (JStr (ascii ''hi''))))
             (buildRequest readyState)
           = Resolved (okResponse (candidateBody (JStr (ascii ''hi''))))"
    by (simp add: respondWith_def)
  have b: "ok (okResponse (candidateBody (JStr (ascii ''hi''))))"
    by (simp add: okResponse_def)
  have c: "jsonResult (okResponse (candidateBody (JStr (ascii ''hi''))))
           = Inr (candidateBody (JStr (ascii ''hi'')))"
    by (simp add: okResponse_def)
  have d: "candidateBody (JStr (ascii ''hi'')) \<noteq> JNull"
    by (simp add: candidateBody_def)
  have e: "textField (candidateBody (JStr (ascii ''hi''))) = Some (JStr (ascii ''hi''))"
    by (simp add: textField_def candidateBody_def ascii_def)
  have p: "\<not> blank (prompt readyState)" "\<not> blank (apiKey readyState)"
    by (simp_all add: readyState_def blank_def ascii_def isWhiteSpace_def)
  from handleGenerate_success_text
         [where s = readyState and eng = hermes
            and fetch = "respondWith (okResponse (candidateBody (JStr (ascii ''hi''))))"
            and r = "okResponse (candidateBody (JStr (ascii ''hi'')))"
            and data = "candidateBody (JStr (ascii ''hi''))", OF p a b c d]
       a b c d e p
  show ?thesis by (simp add: ascii_def)
qed

text \<open>
  The claim as stated fails on two ok responses: one whose text field is present and
  empty (the fallback is displayed, not the field), and one whose body is not JSON (no
  text is set after the clearing; the displayed text stays empty).
\<close>

theorem handleGenerate_success_counterexample:
  "ok (okResponse (candidateBody (JStr []))) \<and>
   jsonResult (okResponse (candidateBody (JStr []))) = Inr (candidateBody (JStr [])) \<and>
   textField (candidateBody (JStr [])) = Some (JStr []) \<and>
   generatedText (runEffects readyState
     (handleGenerate hermes (respondWith (okResponse (candidateBody (JStr [])))) readyState))
     = JStr fallbackText \<and>
   JStr fallbackText \<noteq> JStr [] \<and>
   ok unparsableOk \<and>
   filter isSetGeneratedText (handleGenerate hermes (respondWith unparsableOk) readyState)
     = [SetGeneratedText (JStr [])] \<and>
   generatedText (runEffects readyState
     (handleGenerate hermes (respondWith unparsableOk) readyState)) = JStr []"
  by (simp add: handleGenerate_sent ready_not_blank runEffects_def respondWith_def
      okResponse_def unparsableOk_def tryBlock_def extractText_def textField_def
      candidateBody_def ascii_def orFallback_def fallbackText_def)

lemma tryBlock_failure:
  assumes "out = Rejected t \<or> (out = Resolved r \<and> \<not> ok r)"
  shows "\<exists>e. tryBlock eng out = Inl e"
  using assms by (auto simp: tryBlock_def split: sum.splits)

text \<open>
  A non-success response whose body is not the JSON value null: one request is made, and
  the alert shows the server's message when \<open>error.message\<close> is a non-empty string, the
  status message when that field is absent or falsy.
\<close>

lemma handleGenerate_non_success:
  assumes "\<not> blank (prompt s)" and "\<not> blank (apiKey s)"
    and "fetch (buildRequest s) = Resolved r" and "\<not> ok r"
    and "errorDataOf r \<noteq> JNull"
  shows "filter isFetch (handleGenerate eng fetch s) = [Fetch (buildRequest s)] \<and>
         (\<forall>m. messageField (errorDataOf r) = Some (JStr m) \<and> m \<noteq> [] \<longrightarrow>
            filter isAlert (handleGenerate eng fetch s) = [Alert errorTitle m]) \<and>
         (\<not> truthy (messageField (errorDataOf r)) \<longrightarrow>
            filter isAlert (handleGenerate eng fetch s)
              = [Alert errorTitle (apiErrorPrefix @ decimal (status r))])"
  using assms
  by (auto simp: handleGenerate_sent tryBlock_def errorMessageOf_def statusMessage_def
      split: sum.splits option.splits)

text \<open>
  For instance, status 429 with the body \<open>{"error": {"message": "quota"}}\<close> alerts
  \<open>quota\<close>, and status 503 with the body \<open>{}\<close> alerts the status message.
\<close>

lemma handleGenerate_non_success_examples:
  "filter isAlert
     (handleGenerate hermes
        (respondWith (failedResponse 429 (errorBody (JStr (ascii ''quota''))))) readyState)
     = [Alert errorTitle (ascii ''quota'')] \<and>
   filter isAlert
     (handleGenerate hermes (respondWith (failedResponse 503 (JObj []))) readyState)
     = [Alert errorTitle (apiErrorPrefix @ ascii ''503'')]"
  by (simp add: handleGenerate_sent ready_not_blank respondWith_def failedResponse_def
      tryBlock_def errorMessageOf_def errorDataOf_def messageField_def errorBody_def
      statusMessage_def ascii_def decimal.simps)

text \<open>
  C3. A non-success response must lead to an alert with the server's message or, without
  one, the status code. On status 500 with the body \<open>null\<close> the handler makes its one
  request and then alerts the engine's message for a property read of null, which does
  not contain the status code: \<open>errorData.error\<close> is read without \<open>?.\<close>, and the
  \<open>{}\<close> substituted for a body that fails to parse does not cover a body that parses
  to null.
\<close>

theorem handleGenerate_null_error_body:
  "\<not> ok (failedResponse 500 JNull) \<and>
   handleGenerate hermes (respondWith (failedResponse 500 JNull)) readyState =
     [SetIsGenerating True, SetGeneratedText (JStr []), Fetch (buildRequest readyState),
      Alert errorTitle (nullReadMessage hermes (ascii ''error'')),
      ConsoleError (Error (nullReadMessage hermes (ascii ''error''))),
      SetIsGenerating False] \<and>
   \<not> sublist (decimal 500) (nullReadMessage hermes (ascii ''error''))"
proof -
  have "\<not> sublist (decimal 500) (nullReadMessage hermes (ascii ''error''))"
    by code_simp
  then show ?thesis
    by (simp add: handleGenerate_sent ready_not_blank respondWith_def failedResponse_def
        tryBlock_def errorMessageOf_def errorDataOf_def)
qed

text \<open>
  C10. Once the request is sent, the in-progress flag ends false whatever the outcome.
  When the fetch rejects or the response is not ok, the displayed text ends empty: the
  trace starts by setting the flag, clearing the text and then fetching, and the
  clearing is the only assignment of the text.
\<close>

theorem handleGenerate_failure_clears_text:
  assumes "\<not> blank (prompt s)" and "\<not> blank (apiKey s)"
  shows "isGenerating (runEffects s (handleGenerate eng fetch s)) = False \<and>
         ((\<exists>t. fetch (buildRequest s) = Rejected t) \<or>
          (\<exists>r. fetch (buildRequest s) = Resolved r \<and> \<not> ok r) \<longrightarrow>
            generatedText (runEffects s (handleGenerate eng fetch s)) = JStr [] \<and>
            filter isSetGeneratedText (handleGenerate eng fetch s)
              = [SetGeneratedText (JStr [])] \<and>
            prefix [SetIsGenerating True, SetGeneratedText (JStr []), Fetch (buildRequest s)]
              (handleGenerate eng fetch s))"
proof -
  have flag: "isGenerating (runEffects s (handleGenerate eng fetch s)) = False"
    using assms by (simp add: handleGenerate_sent runEffects_def split: sum.splits)
  have "generatedText (runEffects s (handleGenerate eng fetch s)) = JStr [] \<and>
        filter isSetGeneratedText (handleGenerate eng fetch s) = [SetGeneratedText (JStr [])] \<and>
        prefix [SetIsGenerating True, SetGeneratedText (JStr []), Fetch (buildRequest s)]
          (handleGenerate eng fetch s)"
    if "tryBlock eng (fetch (buildRequest s)) = Inl e" for e
    using assms that by (simp add: handleGenerate_sent runEffects_def)
  with flag show ?thesis
    using tryBlock_failure [of "fetch (buildRequest s)" _ _ eng] by metis
qed

theorem handleGenerate_failure_clears_text_witness:
  "\<not> blank (prompt readyState) \<and> \<not> blank (apiKey readyState) \<and>
   failWith (Error (ascii ''Network request failed'')) (buildRequest readyState)
     = Rejected (Error (ascii ''Network request failed'')) \<and>
   isGenerating (runEffects readyState
     (handleGenerate hermes (failWith (Error (ascii ''Network request failed''))) readyState))
     = False \<and>
   generatedText (runEffects readyState
     (handleGenerate hermes (failWith (Error (ascii ''Network request failed''))) readyState))
     = JStr []"
proof -
  have a: "failWith (Error (ascii ''Network request failed'')) (buildRequest readyState)
     = Rejected (Error (ascii ''Network request failed''))"
    by (simp add: failWith_def)
  from handleGenerate_failure_clears_text
         [where s = readyState and eng = hermes
            and fetch = "failWith (Error (ascii ''Network request failed''))",
          OF ready_not_blank] a ready_not_blank
  show ?thesis by blast
qed

text \<open>
  C7. On both screens, when the text to speak is empty or white space only, the speak
  handler's whole effect is one error alert: \<open>Speech.speak\<close> is not called.
\<close>

theorem handleSpeak_blank_text_alert:
  assumes "blank t"
  shows "(inputText s = t \<longrightarrow>
            SpeechScreen_handleSpeak s = [Alert errorTitle textRequired] \<and>
            filter isSpeak (SpeechScreen_handleSpeak s) = []) \<and>
         (generatedText g = JStr t \<longrightarrow>
            GeminiScreen_handleSpeak eng g = Inr [Alert errorTitle noTextToSpeak] \<and>
            (\<forall>es. GeminiScreen_handleSpeak eng g = Inr es \<longrightarrow> filter isSpeak es = []))"
  using assms
  by (simp add: SpeechScreen_handleSpeak_def GeminiScreen_handleSpeak_def trim_empty_iff)

theorem handleSpeak_blank_text_alert_witness:
  "blank (ascii ''  '') \<and>
   SpeechScreen_handleSpeak (initialSpeech\<lparr>inputText := ascii ''  ''\<rparr>)
     = [Alert errorTitle textRequired] \<and>
   GeminiScreen_handleSpeak hermes (readyState\<lparr>generatedText := JStr (ascii ''  '')\<rparr>)
     = Inr [Alert errorTitle noTextToSpeak]"
proof -
  have b: "blank (ascii ''  '')"
    by (simp add: blank_def ascii_def isWhiteSpace_def)
  from handleSpeak_blank_text_alert
         [OF b, of "initialSpeech\<lparr>inputText := ascii ''  ''\<rparr>"
            "readyState\<lparr>generatedText := JStr (ascii ''  '')\<rparr>" hermes] b
  show ?thesis by simp
qed

text \<open>
  C4. When \<open>handleRecord\<close> runs while recording, the stop resolves and the recorder has a
  non-empty clip URI, the press appends exactly one message tagged user and sets one
  timeout of 1000 milliseconds; the timeout's callback appends exactly one message
  tagged bot with the same URI and the same duration. With no older timeout pending,
  the press followed by the timeout leaves the list extended by just these two.
\<close>

theorem handleRecord_stop_appends_pair:
  assumes "isRecording env" and "stopOutcome env = StopResolved (Some u)" and "u \<noteq> []"
  shows "fst (handleRecord env s) =
           s\<lparr>messages := messages s @
                [\<lparr>msg_id = decimalInt (now env), uri = u, msg_from = User,
                  durationSec = durationOf (recordingTime s)\<rparr>],
             pendingTimeouts := pendingTimeouts s @
                [\<lparr>delay = 1000, echoUri = u,
                  echoDuration = durationOf (recordingTime s)\<rparr>]\<rparr> \<and>
         messages (timeoutCallback t
             \<lparr>delay = 1000, echoUri = u, echoDuration = durationOf (recordingTime s)\<rparr> s')
           = messages s' @
               [\<lparr>msg_id = decimalInt (t + 1), uri = u, msg_from = Bot,
                 durationSec = durationOf (recordingTime s)\<rparr>] \<and>
         (pendingTimeouts s = [] \<longrightarrow>
            messages (run s [PressRecord env, TimeoutFires t]) =
              messages s @
                [\<lparr>msg_id = decimalInt (now env), uri = u, msg_from = User,
                  durationSec = durationOf (recordingTime s)\<rparr>,
                 \<lparr>msg_id = decimalInt (t + 1), uri = u, msg_from = Bot,
                  durationSec = durationOf (recordingTime s)\<rparr>] \<and>
            pendingTimeouts (run s [PressRecord env, TimeoutFires t]) = [])"
  using assms
  by (simp add: handleRecord_def Let_def timeoutCallback_def botMessageOf_def run_def)

theorem handleRecord_stop_appends_pair_witness:
  "isRecording (stoppedWith (ascii ''file:///clip.m4a'')) \<and>
   stopOutcome (stoppedWith (ascii ''file:///clip.m4a''))
     = StopResolved (Some (ascii ''file:///clip.m4a'')) \<and>
   ascii ''file:///clip.m4a'' \<noteq> [] \<and>
   pendingTimeouts emptyVoice = [] \<and>
   messages (run emptyVoice
       [PressRecord (stoppedWith (ascii ''file:///clip.m4a'')), TimeoutFires 1700000001000])
     = [\<lparr>msg_id = ascii ''1700000000000'', uri = ascii ''file:///clip.m4a'',
         msg_from = User, durationSec = 3\<rparr>,
        \<lparr>msg_id = ascii ''1700000001001'', uri = ascii ''file:///clip.m4a'',
         msg_from = Bot, durationSec = 3\<rparr>]"
proof -
  have a: "isRecording (stoppedWith (ascii ''file:///clip.m4a''))"
    "stopOutcome (stoppedWith (ascii ''file:///clip.m4a''))
       = StopResolved (Some (ascii ''file:///clip.m4a''))"
    by (simp_all add: stoppedWith_def)
  have b: "ascii ''file:///clip.m4a'' \<noteq> []" by (simp add: ascii_def)
  have c: "pendingTimeouts emptyVoice = []" "messages emptyVoice = []"
    "durationOf (recordingTime emptyVoice) = 3"
    by (simp_all add: emptyVoice_def durationOf_def)
  have d: "decimalInt (now (stoppedWith (ascii ''file:///clip.m4a''))) = ascii ''1700000000000''"
    "decimalInt (1700000001000 + 1) = ascii ''1700000001001''"
    by (simp_all add: stoppedWith_def decimalInt_def ascii_def decimal.simps)
  from handleRecord_stop_appends_pair [OF a b, of emptyVoice 1700000001000] a b c d
  show ?thesis by simp
qed

text \<open>
  C5. A press of the playback button while the player reports playing issues \<open>pause\<close>;
  a press while it does not issues \<open>seekTo(0)\<close> and then \<open>play\<close>. On the player these
  calls flip the playing flag, so two presses in a row restore it and each press
  changes the icon.
\<close>

theorem handlePlay_alternates:
  "(playing p \<longrightarrow>
      handlePlay (playing p) = [Pause] \<and> \<not> playing (pressPlay p)) \<and>
   (\<not> playing p \<longrightarrow>
      handlePlay (playing p) = [SeekTo 0, Play] \<and> playing (pressPlay p) \<and>
      currentTime (pressPlay p) = 0) \<and>
   playing (pressPlay (pressPlay p)) = playing p \<and>
   playIcon (playing (pressPlay p)) \<noteq> playIcon (playing p)"
  by (simp add: handlePlay_def pressPlay_def playIcon_def)

theorem handlePlay_alternates_witness:
  "\<not> playing idlePlayer \<and>
   handlePlay (playing idlePlayer) = [SeekTo 0, Play] \<and>
   playing (pressPlay idlePlayer) \<and>
   handlePlay (playing (pressPlay idlePlayer)) = [Pause] \<and>
   \<not> playing (pressPlay (pressPlay idlePlayer))"
proof -
  have a: "\<not> playing idlePlayer" by (simp add: idlePlayer_def)
  from handlePlay_alternates [of idlePlayer] handlePlay_alternates [of "pressPlay idlePlayer"] a
  show ?thesis by simp
qed

lemma step_appends: "\<exists>new. messages (step s ev) = messages s @ new \<and> length new \<le> 1"
proof (cases ev)
  case (PressRecord env)
  then show ?thesis
    by (auto simp: handleRecord_def Let_def split: stop_outcome.splits option.splits)
next
  case (TimeoutFires t)
  then show ?thesis
    by (auto simp: timeoutCallback_def split: list.splits)
qed simp_all

lemma run_prefix: "prefix (messages s) (messages (run s evs))"
proof (induction evs arbitrary: s)
  case Nil
  then show ?case by (simp add: run_def)
next
  case (Cons ev evs)
  obtain new where "messages (step s ev) = messages s @ new"
    using step_appends by blast
  then have "prefix (messages s) (messages (step s ev))" by simp
  moreover have "prefix (messages (step s ev)) (messages (run (step s ev) evs))"
    by (rule Cons.IH)
  moreover have "run s (ev # evs) = run (step s ev) evs" by (simp add: run_def)
  ultimately show ?case by (metis prefix_order.trans)
qed

text \<open>
  C6. The message list is append-only: whatever happens on the mounted screen, the list
  before is a prefix of the list after, every single event appends at most one entry at
  the end, and so the entries already present (their id, URI, sender and duration) stay
  as they are, in place.
\<close>

theorem messages_append_only:
  "prefix (messages s) (messages (run s evs)) \<and>
   (\<exists>new. messages (step s ev) = messages s @ new \<and> length new \<le> 1) \<and>
   take (length (messages s)) (messages (run s evs)) = messages s"
proof -
  have "prefix (messages s) (messages (run s evs))" by (rule run_prefix)
  moreover from this have "take (length (messages s)) (messages (run s evs)) = messages s"
    by (auto simp: prefix_def)
  ultimately show ?thesis using step_appends by blast
qed

lemma pollAll_last:
  fixes st :: "'a speaking_state_scheme"
  shows "fs \<noteq> [] \<Longrightarrow> isSpeaking (pollAll fs st) = last fs"
  by (induction fs arbitrary: st rule: rev_induct) (simp_all add: pollAll_def checkSpeaking_def)

lemma poll_twice_per_second:
  assumes "mounted \<le> t"
  shows "intervalRuns pollIntervalMs mounted (t + 1000) - intervalRuns pollIntervalMs mounted t = 2"
proof -
  have "t + 1000 - mounted = (t - mounted) + 2 * 500" using assms by simp
  then have "(t + 1000 - mounted) div 500 = (t - mounted) div 500 + 2"
    by (metis div_mult_self1 zero_neq_numeral add.commute)
  then show ?thesis by (simp add: intervalRuns_def pollIntervalMs_def)
qed

text \<open>
  C8. On both speech-enabled screens the poll has a period of 500 milliseconds, so the
  interval timer runs it exactly twice in every second after the screen is mounted; each
  run copies the polled flag into \<open>isSpeaking\<close>, so after a series of polls the state
  shows the last flag polled.
\<close>

theorem speaking_poll:
  "pollIntervalMs = 500 \<and>
   (mounted \<le> t \<longrightarrow>
      intervalRuns pollIntervalMs mounted (t + 1000) - intervalRuns pollIntervalMs mounted t = 2) \<and>
   isSpeaking (checkSpeaking b (g :: gemini_state)) = b \<and>
   isSpeaking (checkSpeaking b (sp :: speech_state)) = b \<and>
   (flags \<noteq> [] \<longrightarrow> isSpeaking (pollAll flags g) = last flags \<and>
                     isSpeaking (pollAll flags sp) = last flags)"
  using pollAll_last [of flags g] pollAll_last [of flags sp] poll_twice_per_second [of mounted t]
  by (simp add: pollIntervalMs_def checkSpeaking_def)

theorem speaking_poll_witness:
  "(0::nat) \<le> 250 \<and>
   intervalRuns pollIntervalMs 0 (250 + 1000) - intervalRuns pollIntervalMs 0 250 = 2 \<and>
   [False, True] \<noteq> [] \<and>
   isSpeaking (pollAll [False, True] readyState) = True \<and>
   isSpeaking (pollAll [False, True] initialSpeech) = True"
  using speaking_poll [of 0 250 True readyState initialSpeech "[False, True]"]
  by simp

lemma press_inRange:
  assumes "rounding rnd" and "inRange (pitch s)" and "inRange (rate s)"
  shows "inRange (pitch (press rnd s b)) \<and> inRange (rate (press rnd s b))"
proof -
  have mono: "\<And>x y. x \<le> y \<Longrightarrow> rnd x \<le> rnd y"
    and lo: "rnd (1 / 2) = 1 / 2" and hi: "rnd 2 = 2" and tenth: "0 \<le> rnd (1 / 10)"
    using assms(1) by (auto simp: rounding_def)
  have down: "inRange (max (1 / 2) (rnd (v - rnd (1 / 10))))" if "inRange v" for v
  proof -
    have "v - rnd (1 / 10) \<le> 2" using that tenth by (simp add: inRange_def)
    then have "rnd (v - rnd (1 / 10)) \<le> 2" using mono [of "v - rnd (1 / 10)" 2] hi by simp
    then show ?thesis by (simp add: inRange_def)
  qed
  have up: "inRange (min 2 (rnd (v + rnd (1 / 10))))" if "inRange v" for v
  proof -
    have "1 / 2 \<le> v + rnd (1 / 10)" using that tenth by (simp add: inRange_def)
    then have "1 / 2 \<le> rnd (v + rnd (1 / 10))"
      using mono [of "1 / 2" "v + rnd (1 / 10)"] lo by simp
    then show ?thesis by (simp add: inRange_def)
  qed
  show ?thesis
    using assms(2,3) down up
    by (cases b) (simp_all add: pitchDown_def pitchUp_def rateDown_def rateUp_def)
qed

lemma pressAll_inRange:
  assumes "rounding rnd"
  shows "inRange (pitch s) \<Longrightarrow> inRange (rate s) \<Longrightarrow>
         inRange (pitch (pressAll rnd s bs)) \<and> inRange (rate (pressAll rnd s bs))"
proof (induction bs arbitrary: s)
  case Nil
  then show ?case by (simp add: pressAll_def)
next
  case (Cons b bs)
  from press_inRange [OF assms Cons.prems, of b]
  have "inRange (pitch (press rnd s b))" and "inRange (rate (press rnd s b))" by simp_all
  from Cons.IH [OF this] show ?case by (simp add: pressAll_def)
qed

text \<open>
  C9. Starting from pitch 1.0 and rate 1.0, after any sequence of presses of the four
  buttons both values lie in the closed interval from 0.5 to 2.0; a minus button replaces
  its value \<open>v\<close> with \<open>max(0.5, v - 0.1)\<close> and a plus button with \<open>min(2.0, v + 0.1)\<close>,
  the difference and the sum rounded as the arithmetic of the source rounds them.
\<close>

theorem pitch_rate_stay_in_range:
  assumes "rounding rnd"
  shows "inRange (pitch (pressAll rnd initialSpeech bs)) \<and>
         inRange (rate (pressAll rnd initialSpeech bs)) \<and>
         pitch (press rnd s PitchMinus) = max (1 / 2) (rnd (pitch s - rnd (1 / 10))) \<and>
         pitch (press rnd s PitchPlus) = min 2 (rnd (pitch s + rnd (1 / 10))) \<and>
         rate (press rnd s RateMinus) = max (1 / 2) (rnd (rate s - rnd (1 / 10))) \<and>
         rate (press rnd s RatePlus) = min 2 (rnd (rate s + rnd (1 / 10)))"
proof -
  have "inRange (pitch initialSpeech)" "inRange (rate initialSpeech)"
    by (simp_all add: initialSpeech_def inRange_def)
  from pressAll_inRange [OF assms this, of bs] show ?thesis
    by (simp add: pitchDown_def pitchUp_def rateDown_def rateUp_def)
qed

lemma rounding_grid52: "rounding grid52"
proof -
  have "grid52 x \<le> grid52 y" if "x \<le> y" for x y
  proof -
    have "x * 2 ^ 52 \<le> y * 2 ^ 52" using that by simp
    then have "round (x * 2 ^ 52) \<le> round (y * 2 ^ 52)" by (rule round_mono)
    then show ?thesis by (simp add: grid52_def divide_right_mono)
  qed
  moreover have "grid52 (1 / 2) = 1 / 2" by (simp add: grid52_def)
  moreover have "grid52 2 = 2" by (simp add: grid52_def)
  moreover have "0 \<le> grid52 (1 / 10)" by (simp add: grid52_def round_def)
  ultimately show ?thesis by (simp add: rounding_def)
qed

lemma rounding_id: "rounding id"
  by (simp add: rounding_def)

theorem pitch_rate_stay_in_range_witness:
  "rounding grid52 \<and>
   inRange (pitch (pressAll grid52 initialSpeech [PitchPlus, PitchMinus, PitchMinus])) \<and>
   inRange (rate (pressAll grid52 initialSpeech [PitchPlus, PitchMinus, PitchMinus])) \<and>
   rounding id \<and>
   pitch (pressAll id initialSpeech
     [PitchMinus, PitchMinus, PitchMinus, PitchMinus, PitchMinus, PitchMinus]) = 1 / 2 \<and>
   inRange (pitch (pressAll id initialSpeech
     [PitchMinus, PitchMinus, PitchMinus, PitchMinus, PitchMinus, PitchMinus]))"
proof -
  have v: "pitch (pressAll id initialSpeech
     [PitchMinus, PitchMinus, PitchMinus, PitchMinus, PitchMinus, PitchMinus]) = 1 / 2"
    by (simp add: pressAll_def pitchDown_def initialSpeech_def)
  from pitch_rate_stay_in_range
         [OF rounding_grid52, of "[PitchPlus, PitchMinus, PitchMinus]"]
       pitch_rate_stay_in_range
         [OF rounding_id,
          of "[PitchMinus, PitchMinus, PitchMinus, PitchMinus, PitchMinus, PitchMinus]"]
       rounding_grid52 rounding_id v
  show ?thesis by blast
qed

end
